theory Spec2Isabelle
  imports Main "HOL-Library.Word"
begin

unbundle bit_operations_syntax

section \<open>Byte strings and Python text\<close>

text \<open>
  Python \<open>bytes\<close> are lists of 8-bit words.  A Python \<open>str\<close> is a sequence of Unicode
  code points; it is kept as a list of naturals so that \<open>str.encode()\<close> (UTF-8, strict)
  can be modelled with its failure on surrogate code points.
\<close>

type_synonym byte = "8 word"
type_synonym bytes = "byte list"
type_synonym str = "nat list"

datatype exn = ValueError | UnicodeEncodeError | BackendError nat

definition lit :: "string \<Rightarrow> str" where
  "lit s = map of_char s"

text \<open>\<open>str(n)\<close> for an int, as used by f-string interpolation of an int.\<close>

fun digits_of :: "nat \<Rightarrow> nat \<Rightarrow> str" where
  "digits_of 0 n = []"
| "digits_of (Suc fuel) n =
     (if n < 10 then [48 + n] else digits_of fuel (n div 10) @ [48 + n mod 10])"

definition str_of_nat :: "nat \<Rightarrow> str" where
  "str_of_nat n = digits_of (Suc n) n"

definition str_of_int :: "int \<Rightarrow> str" where
  "str_of_int i = (if i < 0 then 45 # str_of_nat (nat (- i)) else str_of_nat (nat i))"

text \<open>\<open>bytes.hex()\<close>: two lowercase hexadecimal digits per byte.\<close>

definition hex_digit :: "nat \<Rightarrow> nat" where
  "hex_digit d = (if d < 10 then 48 + d else 87 + d)"

definition bytes_hex :: "bytes \<Rightarrow> str" where
  "bytes_hex bs = concat (map (\<lambda>b. [hex_digit (unat b div 16), hex_digit (unat b mod 16)]) bs)"

text \<open>\<open>str.encode()\<close>: UTF-8 with the strict error handler.\<close>

definition utf8_char :: "nat \<Rightarrow> bytes option" where
  "utf8_char c =
     (if c < 0x80 then Some [of_nat c]
      else if c < 0x800 then Some [of_nat (0xC0 + c div 64), of_nat (0x80 + c mod 64)]
      else if 0xD800 \<le> c \<and> c \<le> 0xDFFF then None
      else if c < 0x10000 then
        Some [of_nat (0xE0 + c div 4096), of_nat (0x80 + c div 64 mod 64), of_nat (0x80 + c mod 64)]
      else if c < 0x110000 then
        Some [of_nat (0xF0 + c div 262144), of_nat (0x80 + c div 4096 mod 64),
              of_nat (0x80 + c div 64 mod 64), of_nat (0x80 + c mod 64)]
      else None)"

fun str_encode :: "str \<Rightarrow> exn + bytes" where
  "str_encode [] = Inr []"
| "str_encode (c # cs) =
     (case utf8_char c of
        None \<Rightarrow> Inl UnicodeEncodeError
      | Some bs \<Rightarrow> (case str_encode cs of Inl e \<Rightarrow> Inl e | Inr rest \<Rightarrow> Inr (bs @ rest)))"

section \<open>The hash primitives of hashlib and hmac\<close>

text \<open>
  \<open>hashlib.sha256\<close>, \<open>hashlib.sha384\<close> and \<open>hmac.new(key, msg, hashlib.sha256)\<close> are library
  functions; they are written out here after FIPS 180-4 and RFC 2104 so that digests have
  a definite length and can be computed.
\<close>

definition word_bytes :: "nat \<Rightarrow> 'a::len word \<Rightarrow> bytes" where
  "word_bytes n w = map (\<lambda>i. ucast (drop_bit (8 * i) w)) (rev [0..<n])"

definition bytes_word :: "bytes \<Rightarrow> 'a::len word" where
  "bytes_word bs = foldl (\<lambda>acc b. push_bit 8 acc OR ucast b) 0 bs"

definition nat_bytes :: "nat \<Rightarrow> nat \<Rightarrow> bytes" where
  "nat_bytes n v = map (\<lambda>i. of_nat (v div 2 ^ (8 * i))) (rev [0..<n])"

definition chunks :: "nat \<Rightarrow> 'b list \<Rightarrow> 'b list list" where
  "chunks n xs = map (\<lambda>i. take n (drop (i * n) xs)) [0..<length xs div n]"

definition sha2_pad :: "nat \<Rightarrow> nat \<Rightarrow> bytes \<Rightarrow> bytes" where
  "sha2_pad block lenb msg =
     msg @ [0x80] @ replicate ((2 * block - 1 - lenb - length msg mod block) mod block) 0
         @ nat_bytes lenb (8 * length msg)"

definition Ch :: "'a::len word \<Rightarrow> 'a word \<Rightarrow> 'a word \<Rightarrow> 'a word" where
  "Ch x y z = (x AND y) XOR (NOT x AND z)"

definition Maj :: "'a::len word \<Rightarrow> 'a word \<Rightarrow> 'a word \<Rightarrow> 'a word" where
  "Maj x y z = (x AND y) XOR (x AND z) XOR (y AND z)"

type_synonym 'a hstate =
  "'a word \<times> 'a word \<times> 'a word \<times> 'a word \<times> 'a word \<times> 'a word \<times> 'a word \<times> 'a word"

record 'w sha2_params =
  big_sigma0 :: "'w \<Rightarrow> 'w"
  big_sigma1 :: "'w \<Rightarrow> 'w"
  small_sigma0 :: "'w \<Rightarrow> 'w"
  small_sigma1 :: "'w \<Rightarrow> 'w"
  round_constants :: "'w list"
  block_bytes :: nat
  length_bytes :: nat
  word_size :: nat

fun sha2_expand :: "'a::len word sha2_params \<Rightarrow> nat \<Rightarrow> 'a word list \<Rightarrow> 'a word list" where
  "sha2_expand P 0 w = w"
| "sha2_expand P (Suc n) w =
     sha2_expand P n
       (w @ [small_sigma1 P (w ! (length w - 2)) + w ! (length w - 7)
             + small_sigma0 P (w ! (length w - 15)) + w ! (length w - 16)])"

fun sha2_round :: "'a::len word sha2_params \<Rightarrow> 'a hstate \<Rightarrow> 'a word \<times> 'a word \<Rightarrow> 'a hstate" where
  "sha2_round P (a, b, c, d, e, f, g, h) (k, w) =
     (let t1 = h + big_sigma1 P e + Ch e f g + k + w;
          t2 = big_sigma0 P a + Maj a b c
      in (t1 + t2, a, b, c, d + t1, e, f, g))"

fun hstate_add :: "'a::len hstate \<Rightarrow> 'a hstate \<Rightarrow> 'a hstate" where
  "hstate_add (a, b, c, d, e, f, g, h) (a', b', c', d', e', f', g', h') =
     (a + a', b + b', c + c', d + d', e + e', f + f', g + g', h + h')"

definition sha2_compress :: "'a::len word sha2_params \<Rightarrow> 'a hstate \<Rightarrow> bytes \<Rightarrow> 'a hstate" where
  "sha2_compress P H blk =
     (let w = sha2_expand P (length (round_constants P) - 16)
                (map bytes_word (chunks (word_size P) blk))
      in hstate_add H (foldl (sha2_round P) H (zip (round_constants P) w)))"

definition sha2_run :: "'a::len word sha2_params \<Rightarrow> 'a hstate \<Rightarrow> bytes \<Rightarrow> 'a hstate" where
  "sha2_run P iv msg =
     foldl (sha2_compress P) iv
       (chunks (block_bytes P) (sha2_pad (block_bytes P) (length_bytes P) msg))"

definition sha256_params :: "32 word sha2_params" where
  "sha256_params = \<lparr>
     big_sigma0 = (\<lambda>x. word_rotr 2 x XOR word_rotr 13 x XOR word_rotr 22 x),
     big_sigma1 = (\<lambda>x. word_rotr 6 x XOR word_rotr 11 x XOR word_rotr 25 x),
     small_sigma0 = (\<lambda>x. word_rotr 7 x XOR word_rotr 18 x XOR drop_bit 3 x),
     small_sigma1 = (\<lambda>x. word_rotr 17 x XOR word_rotr 19 x XOR drop_bit 10 x),
     round_constants =
       [0x428A2F98, 0x71374491, 0xB5C0FBCF, 0xE9B5DBA5, 0x3956C25B, 0x59F111F1,
        0x923F82A4, 0xAB1C5ED5, 0xD807AA98, 0x12835B01, 0x243185BE, 0x550C7DC3,
        0x72BE5D74, 0x80DEB1FE, 0x9BDC06A7, 0xC19BF174, 0xE49B69C1, 0xEFBE4786,
        0x0FC19DC6, 0x240CA1CC, 0x2DE92C6F, 0x4A7484AA, 0x5CB0A9DC, 0x76F988DA,
        0x983E5152, 0xA831C66D, 0xB00327C8, 0xBF597FC7, 0xC6E00BF3, 0xD5A79147,
        0x06CA6351, 0x14292967, 0x27B70A85, 0x2E1B2138, 0x4D2C6DFC, 0x53380D13,
        0x650A7354, 0x766A0ABB, 0x81C2C92E, 0x92722C85, 0xA2BFE8A1, 0xA81A664B,
        0xC24B8B70, 0xC76C51A3, 0xD192E819, 0xD6990624, 0xF40E3585, 0x106AA070,
        0x19A4C116, 0x1E376C08, 0x2748774C, 0x34B0BCB5, 0x391C0CB3, 0x4ED8AA4A,
        0x5B9CCA4F, 0x682E6FF3, 0x748F82EE, 0x78A5636F, 0x84C87814, 0x8CC70208,
        0x90BEFFFA, 0xA4506CEB, 0xBEF9A3F7, 0xC67178F2],
     block_bytes = 64, length_bytes = 8, word_size = 4 \<rparr>"

definition sha256 :: "bytes \<Rightarrow> bytes" where
  "sha256 msg =
     (case sha2_run sha256_params
             (0x6A09E667, 0xBB67AE85, 0x3C6EF372, 0xA54FF53A,
              0x510E527F, 0x9B05688C, 0x1F83D9AB, 0x5BE0CD19) msg of
        (a, b, c, d, e, f, g, h) \<Rightarrow> concat (map (word_bytes 4) [a, b, c, d, e, f, g, h]))"

definition sha512_params :: "64 word sha2_params" where
  "sha512_params = \<lparr>
     big_sigma0 = (\<lambda>x. word_rotr 28 x XOR word_rotr 34 x XOR word_rotr 39 x),
     big_sigma1 = (\<lambda>x. word_rotr 14 x XOR word_rotr 18 x XOR word_rotr 41 x),
     small_sigma0 = (\<lambda>x. word_rotr 1 x XOR word_rotr 8 x XOR drop_bit 7 x),
     small_sigma1 = (\<lambda>x. word_rotr 19 x XOR word_rotr 61 x XOR drop_bit 6 x),
     round_constants =
       [0x428A2F98D728AE22, 0x7137449123EF65CD, 0xB5C0FBCFEC4D3B2F, 0xE9B5DBA58189DBBC,
        0x3956C25BF348B538, 0x59F111F1B605D019, 0x923F82A4AF194F9B, 0xAB1C5ED5DA6D8118,
        0xD807AA98A3030242, 0x12835B0145706FBE, 0x243185BE4EE4B28C, 0x550C7DC3D5FFB4E2,
        0x72BE5D74F27B896F, 0x80DEB1FE3B1696B1, 0x9BDC06A725C71235, 0xC19BF174CF692694,
        0xE49B69C19EF14AD2, 0xEFBE4786384F25E3, 0x0FC19DC68B8CD5B5, 0x240CA1CC77AC9C65,
        0x2DE92C6F592B0275, 0x4A7484AA6EA6E483, 0x5CB0A9DCBD41FBD4, 0x76F988DA831153B5,
        0x983E5152EE66DFAB, 0xA831C66D2DB43210, 0xB00327C898FB213F, 0xBF597FC7BEEF0EE4,
        0xC6E00BF33DA88FC2, 0xD5A79147930AA725, 0x06CA6351E003826F, 0x142929670A0E6E70,
        0x27B70A8546D22FFC, 0x2E1B21385C26C926, 0x4D2C6DFC5AC42AED, 0x53380D139D95B3DF,
        0x650A73548BAF63DE, 0x766A0ABB3C77B2A8, 0x81C2C92E47EDAEE6, 0x92722C851482353B,
        0xA2BFE8A14CF10364, 0xA81A664BBC423001, 0xC24B8B70D0F89791, 0xC76C51A30654BE30,
        0xD192E819D6EF5218, 0xD69906245565A910, 0xF40E35855771202A, 0x106AA07032BBD1B8,
        0x19A4C116B8D2D0C8, 0x1E376C085141AB53, 0x2748774CDF8EEB99, 0x34B0BCB5E19B48A8,
        0x391C0CB3C5C95A63, 0x4ED8AA4AE3418ACB, 0x5B9CCA4F7763E373, 0x682E6FF3D6B2B8A3,
        0x748F82EE5DEFB2FC, 0x78A5636F43172F60, 0x84C87814A1F0AB72, 0x8CC702081A6439EC,
        0x90BEFFFA23631E28, 0xA4506CEBDE82BDE9, 0xBEF9A3F7B2C67915, 0xC67178F2E372532B,
        0xCA273ECEEA26619C, 0xD186B8C721C0C207, 0xEADA7DD6CDE0EB1E, 0xF57D4F7FEE6ED178,
        0x06F067AA72176FBA, 0x0A637DC5A2C898A6, 0x113F9804BEF90DAE, 0x1B710B35131C471B,
        0x28DB77F523047D84, 0x32CAAB7B40C72493, 0x3C9EBE0A15C9BEBC, 0x431D67C49C100D4C,
        0x4CC5D4BECB3E42B6, 0x597F299CFC657E2A, 0x5FCB6FAB3AD6FAEC, 0x6C44198C4A475817],
     block_bytes = 128, length_bytes = 16, word_size = 8 \<rparr>"

definition sha384 :: "bytes \<Rightarrow> bytes" where
  "sha384 msg =
     (case sha2_run sha512_params
             (0xCBBB9D5DC1059ED8, 0x629A292A367CD507, 0x9159015A3070DD17, 0x152FECD8F70E5939,
              0x67332667FFC00B31, 0x8EB44A8768581511, 0xDB0C2E0D64F98FA7, 0x47B5481DBEFA4FA4) msg of
        (a, b, c, d, e, f, g, h) \<Rightarrow> concat (map (word_bytes 8) [a, b, c, d, e, f]))"

text \<open>HMAC (RFC 2104) over SHA-256, whose block size is 64 bytes.\<close>

definition hmac_sha256 :: "bytes \<Rightarrow> bytes \<Rightarrow> bytes" where
  "hmac_sha256 key msg =
     (let k0 = (if length key > 64 then sha256 key else key);
          k = k0 @ replicate (64 - length k0) 0
      in sha256 (map (\<lambda>b. b XOR 0x5C) k @ sha256 (map (\<lambda>b. b XOR 0x36) k @ msg)))"

lemma length_word_bytes: "length (word_bytes n w) = n"
  by (simp add: word_bytes_def)

lemma length_sha256: "length (sha256 m) = 32"
  by (simp add: sha256_def length_word_bytes split: prod.splits)

lemma length_sha384: "length (sha384 m) = 48"
  by (simp add: sha384_def length_word_bytes split: prod.splits)

lemma length_hmac_sha256: "length (hmac_sha256 k m) = 32"
  by (simp add: hmac_sha256_def Let_def length_sha256)

section \<open>The signature module\<close>

text \<open>
  The native backend \<open>oqs\<close> is outside the repository.  Each call of an operation is given
  the behaviour of the backend during that call: every backend entry point either returns
  a value or raises.
\<close>

datatype oqs_signature = OqsSignature str

record oqs =
  get_enabled_sig_mechanisms :: "exn + str list"
  Signature :: "str \<Rightarrow> exn + oqs_signature"
  signer_generate_keypair :: "oqs_signature \<Rightarrow> exn + bytes"
  signer_export_secret_key :: "oqs_signature \<Rightarrow> exn + bytes"
  signer_sign :: "str option \<Rightarrow> bytes \<Rightarrow> bytes \<Rightarrow> exn + bytes"
  verifier_verify :: "str option \<Rightarrow> bytes \<Rightarrow> bytes \<Rightarrow> bytes \<Rightarrow> exn + bool"

text \<open>What \<open>get_node_id\<close> reads: the environment variable and the thread identifier.\<close>

record environ =
  NODE_ID :: "str option"
  thread_ident :: nat

definition get_node_id :: "environ \<Rightarrow> str" where
  "get_node_id env = (case NODE_ID env of Some v \<Rightarrow> v | None \<Rightarrow> str_of_nat (thread_ident env))"

text \<open>
  The two classes \<open>DilithiumSignature\<close> and \<open>SPHINCSSignature\<close> have the same shape; the
  places where their code differs are functions of the family.
\<close>

datatype family = Dilithium | SPHINCS

text \<open>The module global and the two class-level dictionaries.\<close>

record state =
  LIBOQS_AVAILABLE :: bool
  Dilithium_mock_keypairs :: "bytes \<rightharpoonup> bytes"
  SPHINCS_mock_keypairs :: "bytes \<rightharpoonup> bytes"

record sig_instance =
  security_level :: int
  signer :: "oqs_signature option"
  variant :: "str option"
  enabled_sigs :: "str list"

fun mock_keypairs :: "family \<Rightarrow> state \<Rightarrow> (bytes \<rightharpoonup> bytes)" where
  "mock_keypairs Dilithium s = Dilithium_mock_keypairs s"
| "mock_keypairs SPHINCS s = SPHINCS_mock_keypairs s"

fun mock_keypairs_store :: "family \<Rightarrow> bytes \<Rightarrow> bytes \<Rightarrow> state \<Rightarrow> state" where
  "mock_keypairs_store Dilithium pub priv s =
     s\<lparr>Dilithium_mock_keypairs := (Dilithium_mock_keypairs s)(pub \<mapsto> priv)\<rparr>"
| "mock_keypairs_store SPHINCS pub priv s =
     s\<lparr>SPHINCS_mock_keypairs := (SPHINCS_mock_keypairs s)(pub \<mapsto> priv)\<rparr>"

fun variants :: "family \<Rightarrow> int \<Rightarrow> str list option" where
  "variants Dilithium l =
     (if l = 2 then Some [lit ''ML-DSA-44'', lit ''Dilithium2'']
      else if l = 3 then Some [lit ''ML-DSA-65'', lit ''Dilithium3'']
      else if l = 5 then Some [lit ''ML-DSA-87'', lit ''Dilithium5'']
      else None)"
| "variants SPHINCS l =
     (if l = 1 then Some [lit ''SPHINCS+-SHA2-128f-simple'']
      else if l = 3 then Some [lit ''SPHINCS+-SHA2-192f-simple'']
      else if l = 5 then Some [lit ''SPHINCS+-SHA2-256f-simple'']
      else None)"

fun find_variant :: "str list \<Rightarrow> str list \<Rightarrow> str option" where
  "find_variant [] enabled = None"
| "find_variant (v # vs) enabled = (if v \<in> set enabled then Some v else find_variant vs enabled)"

text \<open>\<open>__init__\<close>: the result is the new instance or the exception raised.\<close>

definition init :: "family \<Rightarrow> oqs \<Rightarrow> int \<Rightarrow> state \<Rightarrow> (exn + sig_instance) \<times> state" where
  "init fam be level s =
     (let self0 = \<lparr>security_level = level, signer = None, variant = None, enabled_sigs = []\<rparr>;
          (self1, s1) =
            (if LIBOQS_AVAILABLE s then
               (case get_enabled_sig_mechanisms be of
                  Inr sigs \<Rightarrow> (self0\<lparr>enabled_sigs := sigs\<rparr>, s)
                | Inl e \<Rightarrow> (self0, s\<lparr>LIBOQS_AVAILABLE := False\<rparr>))
             else (self0, s))
      in if \<not> LIBOQS_AVAILABLE s1 then (Inr self1, s1)
         else (case variants fam level of
                 None \<Rightarrow> (Inl ValueError, s1)
               | Some vs \<Rightarrow>
                   (case find_variant vs (enabled_sigs self1) of
                      None \<Rightarrow> (Inr self1, s1\<lparr>LIBOQS_AVAILABLE := False\<rparr>)
                    | Some v \<Rightarrow>
                        (case Signature be v of
                           Inr sg \<Rightarrow> (Inr (self1\<lparr>variant := Some v, signer := Some sg\<rparr>), s1)
                         | Inl e \<Rightarrow>
                             (Inr (self1\<lparr>variant := Some v\<rparr>),
                              s1\<lparr>LIBOQS_AVAILABLE := False\<rparr>)))))"

fun seed_prefix :: "family \<Rightarrow> str" where
  "seed_prefix Dilithium = lit ''dilithium-''"
| "seed_prefix SPHINCS = lit ''sphincs-''"

text \<open>The mock branch of \<open>generate_keypair\<close>, up to the store into the dictionary.\<close>

definition mock_keypair :: "family \<Rightarrow> int \<Rightarrow> str \<Rightarrow> exn + bytes \<times> bytes" where
  "mock_keypair fam level node_id =
     (case str_encode (seed_prefix fam @ str_of_int level @ lit ''-private-'' @ node_id) of
        Inl e \<Rightarrow> Inl e
      | Inr seed \<Rightarrow>
          (let private_key = sha256 seed in
           case str_encode (seed_prefix fam @ str_of_int level @ lit ''-public-''
                            @ bytes_hex private_key) of
             Inl e \<Rightarrow> Inl e
           | Inr pub_seed \<Rightarrow> Inr (sha256 pub_seed, private_key)))"

definition mock_generate_keypair ::
  "family \<Rightarrow> environ \<Rightarrow> sig_instance \<Rightarrow> state \<Rightarrow> (exn + bytes \<times> bytes) \<times> state" where
  "mock_generate_keypair fam env self s =
     (case mock_keypair fam (security_level self) (get_node_id env) of
        Inl e \<Rightarrow> (Inl e, s)
      | Inr (public_key, private_key) \<Rightarrow>
          (Inr (public_key, private_key), mock_keypairs_store fam public_key private_key s))"

text \<open>The hash object of hashlib: \<open>update\<close> appends, \<open>digest\<close> hashes what was fed.\<close>

definition sha384_new :: bytes where
  "sha384_new = []"

definition sha384_update :: "bytes \<Rightarrow> bytes \<Rightarrow> bytes" where
  "sha384_update h d = h @ d"

definition sha384_digest :: "bytes \<Rightarrow> bytes" where
  "sha384_digest h = sha384 h"

fun mock_sign :: "family \<Rightarrow> bytes \<Rightarrow> bytes \<Rightarrow> bytes" where
  "mock_sign Dilithium private_key message = hmac_sha256 private_key message"
| "mock_sign SPHINCS private_key message =
     sha384_digest (sha384_update (sha384_update sha384_new private_key) message)"

fun mock_signature_length :: "family \<Rightarrow> nat" where
  "mock_signature_length Dilithium = 32"
| "mock_signature_length SPHINCS = 48"

text \<open>
  The mock branch of \<open>verify\<close>.  \<open>if private_key:\<close> is false for a missing key and for an
  empty byte string; \<open>hmac.compare_digest\<close> on two byte strings is equality.
\<close>

definition mock_verify :: "family \<Rightarrow> state \<Rightarrow> bytes \<Rightarrow> bytes \<Rightarrow> bytes \<Rightarrow> bool" where
  "mock_verify fam s public_key message signature =
     (case mock_keypairs fam s public_key of
        Some private_key \<Rightarrow>
          (if private_key \<noteq> [] then signature = mock_sign fam private_key message
           else length signature = mock_signature_length fam)
      | None \<Rightarrow> length signature = mock_signature_length fam)"

definition mock_mode :: "sig_instance \<Rightarrow> state \<Rightarrow> bool" where
  "mock_mode self s = (\<not> LIBOQS_AVAILABLE s \<or> signer self = None)"

definition backend_keypair :: "oqs \<Rightarrow> sig_instance \<Rightarrow> exn + bytes \<times> bytes" where
  "backend_keypair be self =
     (case signer self of
        None \<Rightarrow> Inl ValueError
      | Some sg \<Rightarrow>
          (case signer_generate_keypair be sg of
             Inl e \<Rightarrow> Inl e
           | Inr public_key \<Rightarrow>
               (case signer_export_secret_key be sg of
                  Inl e \<Rightarrow> Inl e
                | Inr private_key \<Rightarrow> Inr (public_key, private_key))))"

function generate_keypair ::
  "family \<Rightarrow> oqs \<Rightarrow> environ \<Rightarrow> sig_instance \<Rightarrow> state \<Rightarrow> (exn + bytes \<times> bytes) \<times> state" where
  "generate_keypair fam be env self s =
     (if mock_mode self s then mock_generate_keypair fam env self s
      else (case backend_keypair be self of
              Inr kp \<Rightarrow> (Inr kp, s)
            | Inl e \<Rightarrow> generate_keypair fam be env self (s\<lparr>LIBOQS_AVAILABLE := False\<rparr>)))"
  by pat_completeness auto
termination
  by (relation "measure (\<lambda>(fam, be, env, self, s). if LIBOQS_AVAILABLE s then 1 else 0)")
     (auto simp: mock_mode_def)

function sign ::
  "family \<Rightarrow> oqs \<Rightarrow> sig_instance \<Rightarrow> bytes \<Rightarrow> bytes \<Rightarrow> state \<Rightarrow> (exn + bytes) \<times> state" where
  "sign fam be self private_key message s =
     (if mock_mode self s then (Inr (mock_sign fam private_key message), s)
      else (case signer_sign be (variant self) private_key message of
              Inr signature \<Rightarrow> (Inr signature, s)
            | Inl e \<Rightarrow> sign fam be self private_key message (s\<lparr>LIBOQS_AVAILABLE := False\<rparr>)))"
  by pat_completeness auto
termination
  by (relation "measure (\<lambda>(fam, be, self, k, m, s). if LIBOQS_AVAILABLE s then 1 else 0)")
     (auto simp: mock_mode_def)

function verify ::
  "family \<Rightarrow> oqs \<Rightarrow> sig_instance \<Rightarrow> bytes \<Rightarrow> bytes \<Rightarrow> bytes \<Rightarrow> state \<Rightarrow> (exn + bool) \<times> state" where
  "verify fam be self public_key message signature s =
     (if mock_mode self s then (Inr (mock_verify fam s public_key message signature), s)
      else (case verifier_verify be (variant self) message signature public_key of
              Inr result \<Rightarrow> (Inr result, s)
            | Inl e \<Rightarrow>
                verify fam be self public_key message signature (s\<lparr>LIBOQS_AVAILABLE := False\<rparr>)))"
  by pat_completeness auto
termination
  by (relation "measure (\<lambda>(fam, be, self, k, m, sg, s). if LIBOQS_AVAILABLE s then 1 else 0)")
     (auto simp: mock_mode_def)

text \<open>
  The number of nested activations of each operation: one for the call itself, one more
  for the recursive call in the \<open>except\<close> branch.
\<close>

function generate_keypair_depth :: "oqs \<Rightarrow> sig_instance \<Rightarrow> state \<Rightarrow> nat" where
  "generate_keypair_depth be self s =
     (if mock_mode self s then 1
      else (case backend_keypair be self of
              Inr kp \<Rightarrow> 1
            | Inl e \<Rightarrow> Suc (generate_keypair_depth be self (s\<lparr>LIBOQS_AVAILABLE := False\<rparr>))))"
  by pat_completeness auto
termination
  by (relation "measure (\<lambda>(be, self, s). if LIBOQS_AVAILABLE s then 1 else 0)")
     (auto simp: mock_mode_def)

function sign_depth :: "oqs \<Rightarrow> sig_instance \<Rightarrow> bytes \<Rightarrow> bytes \<Rightarrow> state \<Rightarrow> nat" where
  "sign_depth be self private_key message s =
     (if mock_mode self s then 1
      else (case signer_sign be (variant self) private_key message of
              Inr signature \<Rightarrow> 1
            | Inl e \<Rightarrow>
                Suc (sign_depth be self private_key message (s\<lparr>LIBOQS_AVAILABLE := False\<rparr>))))"
  by pat_completeness auto
termination
  by (relation "measure (\<lambda>(be, self, k, m, s). if LIBOQS_AVAILABLE s then 1 else 0)")
     (auto simp: mock_mode_def)

function verify_depth :: "oqs \<Rightarrow> sig_instance \<Rightarrow> bytes \<Rightarrow> bytes \<Rightarrow> bytes \<Rightarrow> state \<Rightarrow> nat" where
  "verify_depth be self public_key message signature s =
     (if mock_mode self s then 1
      else (case verifier_verify be (variant self) message signature public_key of
              Inr result \<Rightarrow> 1
            | Inl e \<Rightarrow>
                Suc (verify_depth be self public_key message signature
                       (s\<lparr>LIBOQS_AVAILABLE := False\<rparr>))))"
  by pat_completeness auto
termination
  by (relation "measure (\<lambda>(be, self, k, m, sg, s). if LIBOQS_AVAILABLE s then 1 else 0)")
     (auto simp: mock_mode_def)

text \<open>Sequences of constructions and calls, each with the backend and environment it meets.\<close>

datatype call =
    Init family int
  | Generate_keypair family sig_instance
  | Sign family sig_instance bytes bytes
  | Verify family sig_instance bytes bytes bytes

fun step :: "oqs \<times> environ \<times> call \<Rightarrow> state \<Rightarrow> state" where
  "step (be, env, Init fam level) s = snd (init fam be level s)"
| "step (be, env, Generate_keypair fam self) s = snd (generate_keypair fam be env self s)"
| "step (be, env, Sign fam self k m) s = snd (sign fam be self k m s)"
| "step (be, env, Verify fam self k m sg) s = snd (verify fam be self k m sg s)"

fun run :: "(oqs \<times> environ \<times> call) list \<Rightarrow> state \<Rightarrow> state" where
  "run [] s = s"
| "run (c # cs) s = run cs (step c s)"

definition initial_state :: "bool \<Rightarrow> state" where
  "initial_state available =
     \<lparr>LIBOQS_AVAILABLE = available, Dilithium_mock_keypairs = Map.empty,
      SPHINCS_mock_keypairs = Map.empty\<rparr>"

text \<open>Flipping bit \<open>i\<close> of a byte string.\<close>

definition flip_signature_bit :: "nat \<Rightarrow> bytes \<Rightarrow> bytes" where
  "flip_signature_bit i bs = bs[i div 8 := (bs ! (i div 8)) XOR push_bit (i mod 8) 1]"

text \<open>
  The derivation of mock keys and signatures in the words of the specification: the seed
  strings are \<open>{family}-{level}-private-{node_id}\<close> and \<open>{family}-{level}-public-{hex}\<close>.
\<close>

fun family_name :: "family \<Rightarrow> string" where
  "family_name Dilithium = ''dilithium''"
| "family_name SPHINCS = ''sphincs''"

definition spec_seed :: "family \<Rightarrow> int \<Rightarrow> string \<Rightarrow> str \<Rightarrow> str" where
  "spec_seed fam level kind rest =
     lit (family_name fam) @ lit ''-'' @ str_of_int level @ lit ''-'' @ lit kind @ lit ''-'' @ rest"

definition ascii_bytes :: "str \<Rightarrow> bytes" where
  "ascii_bytes cs = map of_nat cs"


section \<open>Basic facts\<close>

declare generate_keypair.simps [simp del]
declare sign.simps [simp del]
declare verify.simps [simp del]
declare generate_keypair_depth.simps [simp del]
declare sign_depth.simps [simp del]
declare verify_depth.simps [simp del]

lemma mock_mode_flag_off [simp]: "mock_mode self (s\<lparr>LIBOQS_AVAILABLE := False\<rparr>)"
  by (simp add: mock_mode_def)

lemma generate_keypair_mock:
  "mock_mode self s \<Longrightarrow> generate_keypair fam be env self s = mock_generate_keypair fam env self s"
  by (subst generate_keypair.simps) simp

lemma generate_keypair_ok:
  "\<not> mock_mode self s \<Longrightarrow> backend_keypair be self = Inr kp \<Longrightarrow>
   generate_keypair fam be env self s = (Inr kp, s)"
  by (subst generate_keypair.simps) simp

lemma generate_keypair_raise:
  "\<not> mock_mode self s \<Longrightarrow> backend_keypair be self = Inl e \<Longrightarrow>
   generate_keypair fam be env self s =
     mock_generate_keypair fam env self (s\<lparr>LIBOQS_AVAILABLE := False\<rparr>)"
  by (subst generate_keypair.simps) (simp add: generate_keypair_mock)

lemma sign_mock:
  "mock_mode self s \<Longrightarrow> sign fam be self k m s = (Inr (mock_sign fam k m), s)"
  by (subst sign.simps) simp

lemma sign_ok:
  "\<not> mock_mode self s \<Longrightarrow> signer_sign be (variant self) k m = Inr sg \<Longrightarrow>
   sign fam be self k m s = (Inr sg, s)"
  by (subst sign.simps) simp

lemma sign_raise:
  "\<not> mock_mode self s \<Longrightarrow> signer_sign be (variant self) k m = Inl e \<Longrightarrow>
   sign fam be self k m s = (Inr (mock_sign fam k m), s\<lparr>LIBOQS_AVAILABLE := False\<rparr>)"
  by (subst sign.simps) (simp add: sign_mock)

lemma verify_mock:
  "mock_mode self s \<Longrightarrow> verify fam be self k m sg s = (Inr (mock_verify fam s k m sg), s)"
  by (subst verify.simps) simp

lemma verify_ok:
  "\<not> mock_mode self s \<Longrightarrow> verifier_verify be (variant self) m sg k = Inr r \<Longrightarrow>
   verify fam be self k m sg s = (Inr r, s)"
  by (subst verify.simps) simp

lemma verify_raise:
  "\<not> mock_mode self s \<Longrightarrow> verifier_verify be (variant self) m sg k = Inl e \<Longrightarrow>
   verify fam be self k m sg s =
     (Inr (mock_verify fam (s\<lparr>LIBOQS_AVAILABLE := False\<rparr>) k m sg), s\<lparr>LIBOQS_AVAILABLE := False\<rparr>)"
  by (subst verify.simps) (simp add: verify_mock)

lemma mock_keypairs_flag [simp]:
  "mock_keypairs fam (s\<lparr>LIBOQS_AVAILABLE := b\<rparr>) = mock_keypairs fam s"
  by (cases fam) simp_all

lemma mock_keypairs_store_same [simp]:
  "mock_keypairs fam (mock_keypairs_store fam pub priv s) = (mock_keypairs fam s)(pub \<mapsto> priv)"
  by (cases fam) simp_all

lemma mock_keypairs_store_other:
  "fam' \<noteq> fam \<Longrightarrow> mock_keypairs fam' (mock_keypairs_store fam pub priv s) = mock_keypairs fam' s"
  by (cases fam; cases fam') simp_all

lemma flag_mock_keypairs_store [simp]:
  "LIBOQS_AVAILABLE (mock_keypairs_store fam pub priv s) = LIBOQS_AVAILABLE s"
  by (cases fam) simp_all

lemma mock_keypair_length:
  "mock_keypair fam level node_id = Inr (pub, priv) \<Longrightarrow> length pub = 32 \<and> length priv = 32"
  by (auto simp: mock_keypair_def Let_def length_sha256 split: sum.splits)

lemma length_mock_sign: "length (mock_sign fam k m) = mock_signature_length fam"
  by (cases fam) (simp_all add: length_hmac_sha256 length_sha384 sha384_digest_def)

lemma generate_keypair_depth_mock: "mock_mode self s \<Longrightarrow> generate_keypair_depth be self s = 1"
  by (subst generate_keypair_depth.simps) simp

lemma sign_depth_mock: "mock_mode self s \<Longrightarrow> sign_depth be self k m s = 1"
  by (subst sign_depth.simps) simp

lemma verify_depth_mock: "mock_mode self s \<Longrightarrow> verify_depth be self k m sg s = 1"
  by (subst verify_depth.simps) simp

lemma generate_keypair_depth_le: "generate_keypair_depth be self s \<le> 2"
  by (subst generate_keypair_depth.simps) (simp add: generate_keypair_depth_mock split: sum.splits)

lemma sign_depth_le: "sign_depth be self k m s \<le> 2"
  by (subst sign_depth.simps) (simp add: sign_depth_mock split: sum.splits)

lemma verify_depth_le: "verify_depth be self k m sg s \<le> 2"
  by (subst verify_depth.simps) (simp add: verify_depth_mock split: sum.splits)

lemma flag_mock_generate_keypair [simp]:
  "LIBOQS_AVAILABLE (snd (mock_generate_keypair fam env self s)) = LIBOQS_AVAILABLE s"
  by (simp add: mock_generate_keypair_def split: sum.splits prod.splits)

lemma init_flag_off:
  "\<not> LIBOQS_AVAILABLE s \<Longrightarrow>
   init fam be level s =
     (Inr \<lparr>security_level = level, signer = None, variant = None, enabled_sigs = []\<rparr>, s)"
  by (simp add: init_def)

lemma step_flag_off: "\<not> LIBOQS_AVAILABLE s \<Longrightarrow> \<not> LIBOQS_AVAILABLE (step c s)"
proof -
  assume off: "\<not> LIBOQS_AVAILABLE s"
  then have mm: "\<And>self. mock_mode self s" by (simp add: mock_mode_def)
  obtain be env c' where c: "c = (be, env, c')" by (cases c) auto
  show ?thesis
    using off by (cases c') (simp_all add: c init_flag_off generate_keypair_mock sign_mock verify_mock mm)
qed

lemma run_flag_off: "\<not> LIBOQS_AVAILABLE s \<Longrightarrow> \<not> LIBOQS_AVAILABLE (run cs s)"
  by (induction cs arbitrary: s) (simp_all add: step_flag_off)

lemma str_encode_append:
  "str_encode (a @ b) =
     (case str_encode a of
        Inl e \<Rightarrow> Inl UnicodeEncodeError
      | Inr x \<Rightarrow> (case str_encode b of Inl e \<Rightarrow> Inl e | Inr y \<Rightarrow> Inr (x @ y)))"
proof (induction a)
  case Nil
  show ?case by (simp split: sum.splits)
next
  case (Cons c cs)
  then show ?case by (simp split: option.splits sum.splits)
qed

lemma str_encode_error: "str_encode cs = Inl e \<Longrightarrow> e = UnicodeEncodeError"
  by (induction cs arbitrary: e) (auto split: option.splits sum.splits)

lemma str_encode_ascii: "\<forall>c\<in>set cs. c < 128 \<Longrightarrow> str_encode cs = Inr (ascii_bytes cs)"
  by (induction cs) (simp_all add: ascii_bytes_def utf8_char_def)

lemma digits_of_ascii: "\<forall>c\<in>set (digits_of fuel n). c < 128"
proof (induction fuel arbitrary: n)
  case 0
  show ?case by simp
next
  case (Suc fuel)
  have "n mod 10 < 10" by simp
  then have "48 + n mod 10 < 128" by linarith
  with Suc show ?case by auto
qed

lemma str_of_int_ascii: "\<forall>c\<in>set (str_of_int i). c < 128"
  by (simp add: str_of_int_def str_of_nat_def digits_of_ascii del: digits_of.simps)

lemma hex_digit_ascii: "d < 16 \<Longrightarrow> hex_digit d < 128"
  by (simp add: hex_digit_def)

lemma bytes_hex_ascii: "\<forall>c\<in>set (bytes_hex bs). c < 128"
proof -
  have "\<And>b :: byte. unat b div 16 < 16"
  proof -
    fix b :: byte
    have "unat b < 2 ^ LENGTH(8)" by (rule unsigned_less)
    then have "unat b < 256" by simp
    then show "unat b div 16 < 16" by simp
  qed
  then show ?thesis by (auto simp: bytes_hex_def hex_digit_ascii)
qed

lemma seed_prefix_ascii: "\<forall>c\<in>set (seed_prefix fam). c < 128"
  by (cases fam) (simp_all add: lit_def)

lemma seed_prefix_spec: "seed_prefix fam = lit (family_name fam) @ lit ''-''"
  by (cases fam) (simp_all add: lit_def)

lemma private_seed_spec:
  "seed_prefix fam @ str_of_int level @ lit ''-private-'' @ rest
     = spec_seed fam level ''private'' rest"
  by (simp add: spec_seed_def seed_prefix_spec lit_def)

lemma public_seed_spec:
  "seed_prefix fam @ str_of_int level @ lit ''-public-'' @ rest
     = spec_seed fam level ''public'' rest"
  by (simp add: spec_seed_def seed_prefix_spec lit_def)

lemma public_seed_ascii: "\<forall>c\<in>set (spec_seed fam level ''public'' (bytes_hex bs)). c < 128"
proof -
  have "\<forall>c\<in>set (lit ''-public-''). c < 128" by (simp add: lit_def)
  then show ?thesis
    using seed_prefix_ascii [of fam] str_of_int_ascii [of level] bytes_hex_ascii [of bs]
    unfolding public_seed_spec [symmetric] by auto
qed

lemma mock_keypair_spec:
  "mock_keypair fam level node_id =
     (case str_encode (spec_seed fam level ''private'' node_id) of
        Inl e \<Rightarrow> Inl e
      | Inr seed \<Rightarrow>
          Inr (sha256 (ascii_bytes (spec_seed fam level ''public'' (bytes_hex (sha256 seed)))),
               sha256 seed))"
  by (simp add: mock_keypair_def private_seed_spec public_seed_spec Let_def
        str_encode_ascii [OF public_seed_ascii] split: sum.splits)

lemma private_seed_encodes:
  assumes "str_encode node_id = Inr nb"
  shows "\<exists>seed. str_encode (spec_seed fam level ''private'' node_id) = Inr seed"
proof -
  have "\<forall>c\<in>set (seed_prefix fam @ str_of_int level @ lit ''-private-''). c < 128"
    using seed_prefix_ascii [of fam] str_of_int_ascii [of level] by (auto simp: lit_def)
  then have "str_encode (seed_prefix fam @ str_of_int level @ lit ''-private-'')
               = Inr (ascii_bytes (seed_prefix fam @ str_of_int level @ lit ''-private-''))"
    by (rule str_encode_ascii)
  then have "str_encode ((seed_prefix fam @ str_of_int level @ lit ''-private-'') @ node_id)
               = Inr (ascii_bytes (seed_prefix fam @ str_of_int level @ lit ''-private-'') @ nb)"
    using assms by (simp only: str_encode_append sum.case)
  then show ?thesis by (simp add: private_seed_spec)
qed

lemma mock_generate_keypair_raises:
  assumes "str_encode (get_node_id env) = Inl e"
  shows "mock_generate_keypair fam env self s = (Inl UnicodeEncodeError, s)"
proof -
  have "str_encode ((seed_prefix fam @ str_of_int (security_level self) @ lit ''-private-'')
                     @ get_node_id env) = Inl UnicodeEncodeError"
    using assms str_encode_error [OF assms]
    by (simp only: str_encode_append) (simp split: sum.splits)
  then have "str_encode (spec_seed fam (security_level self) ''private'' (get_node_id env))
               = Inl UnicodeEncodeError"
    by (simp add: private_seed_spec)
  then show ?thesis by (simp add: mock_generate_keypair_def mock_keypair_spec)
qed

lemma mock_generate_keypair_returns:
  assumes "str_encode (get_node_id env) = Inr nb"
  shows "\<exists>pub priv. mock_generate_keypair fam env self s
           = (Inr (pub, priv), mock_keypairs_store fam pub priv s)"
proof -
  obtain seed where
    "str_encode (spec_seed fam (security_level self) ''private'' (get_node_id env)) = Inr seed"
    using private_seed_encodes [OF assms] by blast
  then show ?thesis by (simp add: mock_generate_keypair_def mock_keypair_spec)
qed

lemma mock_generate_keypair_result:
  assumes "mock_generate_keypair fam env self s = (Inr (pub, priv), s1)"
  shows "s1 = mock_keypairs_store fam pub priv s \<and> length pub = 32 \<and> length priv = 32"
  using assms mock_keypair_length [of fam "security_level self" "get_node_id env"]
  by (auto simp: mock_generate_keypair_def split: sum.splits prod.splits)

lemma mock_generate_keypair_error:
  "mock_generate_keypair fam env self s = (Inl e, s1) \<Longrightarrow> s1 = s"
  by (auto simp: mock_generate_keypair_def split: sum.splits prod.splits)

text \<open>How one call changes a dictionary: not at all, or by one entry with a 32-byte value.\<close>

lemma generate_keypair_registry:
  "mock_keypairs fam' (snd (generate_keypair fam be env self s)) = mock_keypairs fam' s
   \<or> (\<exists>pub priv. fam' = fam \<and> length priv = 32
         \<and> fst (generate_keypair fam be env self s) = Inr (pub, priv)
         \<and> mock_keypairs fam' (snd (generate_keypair fam be env self s))
             = (mock_keypairs fam' s)(pub \<mapsto> priv))"
proof -
  have mock: "mock_keypairs fam' (snd (mock_generate_keypair fam env self t)) = mock_keypairs fam' t
     \<or> (\<exists>pub priv. fam' = fam \<and> length priv = 32
           \<and> fst (mock_generate_keypair fam env self t) = Inr (pub, priv)
           \<and> mock_keypairs fam' (snd (mock_generate_keypair fam env self t))
               = (mock_keypairs fam' t)(pub \<mapsto> priv))" for t
  proof (cases "mock_generate_keypair fam env self t")
    case (Pair r t1)
    show ?thesis
    proof (cases r)
      case (Inl e)
      then show ?thesis using Pair mock_generate_keypair_error [of fam env self t e t1] by simp
    next
      case (Inr kp)
      obtain pub priv where kp: "kp = (pub, priv)" by (cases kp)
      have "t1 = mock_keypairs_store fam pub priv t \<and> length pub = 32 \<and> length priv = 32"
        using Pair Inr kp by (intro mock_generate_keypair_result) simp
      then show ?thesis
        using Pair Inr kp by (cases "fam' = fam") (simp_all add: mock_keypairs_store_other)
    qed
  qed
  show ?thesis
  proof (cases "mock_mode self s")
    case True
    then show ?thesis using mock [of s] by (simp add: generate_keypair_mock)
  next
    case False
    show ?thesis
    proof (cases "backend_keypair be self")
      case (Inr kp)
      then show ?thesis using False by (simp add: generate_keypair_ok)
    next
      case (Inl e)
      then show ?thesis
        using False mock [of "s\<lparr>LIBOQS_AVAILABLE := False\<rparr>"]
        by (simp add: generate_keypair_raise)
    qed
  qed
qed

lemma sign_registry: "mock_keypairs fam' (snd (sign fam be self k m s)) = mock_keypairs fam' s"
proof (cases "mock_mode self s")
  case True
  then show ?thesis by (simp add: sign_mock)
next
  case False
  then show ?thesis
    by (cases "signer_sign be (variant self) k m") (simp_all add: sign_raise sign_ok)
qed

lemma verify_registry:
  "mock_keypairs fam' (snd (verify fam be self k m sg s)) = mock_keypairs fam' s"
proof (cases "mock_mode self s")
  case True
  then show ?thesis by (simp add: verify_mock)
next
  case False
  then show ?thesis
    by (cases "verifier_verify be (variant self) m sg k") (simp_all add: verify_raise verify_ok)
qed

lemma init_registry: "mock_keypairs fam' (snd (init fam be level s)) = mock_keypairs fam' s"
  by (simp add: init_def Let_def split: sum.splits option.splits prod.splits if_splits)

lemma step_registry:
  "mock_keypairs fam' (step c s) = mock_keypairs fam' s
   \<or> (\<exists>pub priv. length priv = 32
         \<and> mock_keypairs fam' (step c s) = (mock_keypairs fam' s)(pub \<mapsto> priv))"
proof -
  obtain be env c' where c: "c = (be, env, c')" by (cases c) auto
  show ?thesis
  proof (cases c')
    case (Init fam level)
    then show ?thesis by (simp add: c init_registry)
  next
    case (Generate_keypair fam self)
    then show ?thesis using generate_keypair_registry [of fam' fam be env self s] c by auto
  next
    case (Sign fam self k m)
    then show ?thesis by (simp add: c sign_registry)
  next
    case (Verify fam self k m sg)
    then show ?thesis by (simp add: c verify_registry)
  qed
qed

lemma step_dom: "dom (mock_keypairs fam' s) \<subseteq> dom (mock_keypairs fam' (step c s))"
  using step_registry [of fam' c s] by auto

lemma run_dom: "dom (mock_keypairs fam' s) \<subseteq> dom (mock_keypairs fam' (run cs s))"
proof (induction cs arbitrary: s)
  case Nil
  show ?case by simp
next
  case (Cons c cs)
  have "dom (mock_keypairs fam' s) \<subseteq> dom (mock_keypairs fam' (step c s))" by (rule step_dom)
  also have "\<dots> \<subseteq> dom (mock_keypairs fam' (run cs (step c s)))" by (rule Cons.IH)
  finally show ?case by simp
qed

lemma step_private_keys:
  assumes "\<And>pub priv. mock_keypairs fam' s pub = Some priv \<Longrightarrow> length priv = 32"
    and "mock_keypairs fam' (step c s) pub = Some priv"
  shows "length priv = 32"
  using step_registry [of fam' c s] assms by (auto split: if_splits)

lemma run_private_keys:
  assumes "\<And>pub priv. mock_keypairs fam' s pub = Some priv \<Longrightarrow> length priv = 32"
    and "mock_keypairs fam' (run cs s) pub = Some priv"
  shows "length priv = 32"
  using assms
proof (induction cs arbitrary: s)
  case Nil
  then show ?case by simp
next
  case (Cons c cs)
  show ?case
  proof (rule Cons.IH [of "step c s"])
    show "length priv' = 32" if "mock_keypairs fam' (step c s) pub' = Some priv'" for pub' priv'
      using Cons.prems(1) that by (rule step_private_keys)
    show "mock_keypairs fam' (run cs (step c s)) pub = Some priv"
      using Cons.prems(2) by simp
  qed
qed

lemma reachable_private_keys:
  "mock_keypairs fam' (run cs (initial_state b)) pub = Some priv \<Longrightarrow> length priv = 32"
proof (rule run_private_keys [of fam' "initial_state b" cs pub priv])
  show "length priv' = 32" if "mock_keypairs fam' (initial_state b) pub' = Some priv'"
    for pub' priv'
    using that by (cases fam') (simp_all add: initial_state_def)
qed

lemma mock_verify_registered:
  "mock_keypairs fam s pub = Some priv \<Longrightarrow> length priv = 32 \<Longrightarrow>
   mock_verify fam s pub m sg = (sg = mock_sign fam priv m)"
  by (auto simp: mock_verify_def)

lemma push_bit_byte_nonzero: "k < 8 \<Longrightarrow> push_bit k (1 :: byte) \<noteq> 0"
proof
  assume k: "k < 8" and z: "push_bit k (1 :: byte) = 0"
  have "bit (push_bit k (1 :: byte)) k" using k by (simp add: bit_simps)
  then have "bit (0 :: byte) k" unfolding z .
  then show False by simp
qed

lemma xor_changes_byte: "p \<noteq> 0 \<Longrightarrow> (a :: byte) XOR p \<noteq> a"
proof
  assume p: "p \<noteq> 0" and e: "a XOR p = a"
  have "p = a XOR (a XOR p)" by (simp add: xor.assoc [symmetric])
  also have "\<dots> = 0" by (simp add: e)
  finally show False using p by simp
qed

lemma flip_signature_bit_changes:
  assumes "i < 8 * length bs"
  shows "flip_signature_bit i bs \<noteq> bs"
proof
  assume e: "flip_signature_bit i bs = bs"
  have j: "i div 8 < length bs" using assms by auto
  have "flip_signature_bit i bs ! (i div 8) = (bs ! (i div 8)) XOR push_bit (i mod 8) 1"
    using j by (simp add: flip_signature_bit_def)
  then have "(bs ! (i div 8)) XOR push_bit (i mod 8) 1 = bs ! (i div 8)" by (simp add: e)
  moreover have "push_bit (i mod 8) (1 :: byte) \<noteq> 0" by (rule push_bit_byte_nonzero) simp
  ultimately show False using xor_changes_byte by blast
qed

text \<open>Concrete inputs used to instantiate the theorems below.\<close>

definition raising_oqs :: oqs where
  "raising_oqs =
     \<lparr>get_enabled_sig_mechanisms = Inl (BackendError 0),
      Signature = (\<lambda>v. Inl (BackendError 1)),
      signer_generate_keypair = (\<lambda>sg. Inl (BackendError 2)),
      signer_export_secret_key = (\<lambda>sg. Inl (BackendError 3)),
      signer_sign = (\<lambda>v k m. Inl (BackendError 4)),
      verifier_verify = (\<lambda>v m sg k. Inl (BackendError 5))\<rparr>"

definition mock_instance :: "int \<Rightarrow> sig_instance" where
  "mock_instance level =
     \<lparr>security_level = level, signer = None, variant = None, enabled_sigs = []\<rparr>"

definition real_instance :: sig_instance where
  "real_instance =
     \<lparr>security_level = 3, signer = Some (OqsSignature (lit ''ML-DSA-65'')),
      variant = Some (lit ''ML-DSA-65''), enabled_sigs = [lit ''ML-DSA-65'']\<rparr>"

definition node_env :: environ where
  "node_env = \<lparr>NODE_ID = Some (lit ''node-1''), thread_ident = 7\<rparr>"

definition surrogate_env :: environ where
  "surrogate_env = \<lparr>NODE_ID = Some (lit ''node-'' @ [0xDCFF]), thread_ident = 7\<rparr>"

definition working_oqs :: oqs where
  "working_oqs =
     \<lparr>get_enabled_sig_mechanisms = Inr [lit ''ML-DSA-65'', lit ''SPHINCS+-SHA2-192f-simple''],
      Signature = (\<lambda>v. Inr (OqsSignature v)),
      signer_generate_keypair = (\<lambda>sg. Inr [10, 11]),
      signer_export_secret_key = (\<lambda>sg. Inr [12, 13]),
      signer_sign = (\<lambda>v k m. Inr (k @ m)),
      verifier_verify = (\<lambda>v m sg k. Inr True)\<rparr>"

definition node1_private_key :: "family \<Rightarrow> int \<Rightarrow> bytes" where
  "node1_private_key fam level =
     sha256 (ascii_bytes (spec_seed fam level ''private'' (lit ''node-1'')))"

definition node1_public_key :: "family \<Rightarrow> int \<Rightarrow> bytes" where
  "node1_public_key fam level =
     sha256 (ascii_bytes (spec_seed fam level ''public'' (bytes_hex (node1_private_key fam level))))"

lemma node1_generate_keypair:
  assumes "mock_mode self s"
  shows "generate_keypair fam be node_env self s =
           (Inr (node1_public_key fam (security_level self),
                 node1_private_key fam (security_level self)),
            mock_keypairs_store fam (node1_public_key fam (security_level self))
              (node1_private_key fam (security_level self)) s)"
proof -
  have "\<forall>c\<in>set (spec_seed fam (security_level self) ''private'' (lit ''node-1'')). c < 128"
    using seed_prefix_ascii [of fam] str_of_int_ascii [of "security_level self"]
    unfolding private_seed_spec [symmetric] by (auto simp: lit_def)
  then have "str_encode (spec_seed fam (security_level self) ''private'' (lit ''node-1''))
               = Inr (ascii_bytes (spec_seed fam (security_level self) ''private''
                                     (lit ''node-1'')))"
    by (rule str_encode_ascii)
  then show ?thesis
    using assms
    by (simp add: generate_keypair_mock mock_generate_keypair_def mock_keypair_spec
          get_node_id_def node_env_def node1_public_key_def node1_private_key_def)
qed

lemma mock_mode_mock_instance [simp]: "mock_mode (mock_instance level) s"
  by (simp add: mock_mode_def mock_instance_def)

section \<open>The claims\<close>

text \<open>
  C3.  The availability flag never returns to available: from any state in which it is
  false, every sequence of constructions and of generate_keypair/sign/verify calls ends in
  a state in which it is false, and in that state every operation of either family, on any
  instance (also one that holds a working backend signer) and whatever the backend would
  do, is the mock branch; a construction yields an instance without signer.
\<close>

theorem flag_stays_off_and_forces_mock:
  assumes "\<not> LIBOQS_AVAILABLE s"
  shows "\<not> LIBOQS_AVAILABLE (run cs s)
       \<and> generate_keypair fam be env self (run cs s) = mock_generate_keypair fam env self (run cs s)
       \<and> sign fam be self k m (run cs s) = (Inr (mock_sign fam k m), run cs s)
       \<and> verify fam be self k m sg (run cs s)
           = (Inr (mock_verify fam (run cs s) k m sg), run cs s)
       \<and> init fam be level (run cs s) = (Inr (mock_instance level), run cs s)"
proof -
  have off: "\<not> LIBOQS_AVAILABLE (run cs s)" using assms by (rule run_flag_off)
  then have mm: "mock_mode self (run cs s)" by (simp add: mock_mode_def)
  show ?thesis
    using off mm
    by (simp add: generate_keypair_mock sign_mock verify_mock init_flag_off mock_instance_def)
qed

theorem flag_stays_off_and_forces_mock_witness:
  "\<not> LIBOQS_AVAILABLE
       (run [(raising_oqs, node_env, Init Dilithium 3),
             (raising_oqs, node_env, Sign SPHINCS real_instance [1] [2])]
          (initial_state False))
   \<and> sign Dilithium raising_oqs real_instance [1] [2]
        (run [(raising_oqs, node_env, Init Dilithium 3),
              (raising_oqs, node_env, Sign SPHINCS real_instance [1] [2])]
           (initial_state False))
      = (Inr (hmac_sha256 [1] [2]), initial_state False)"
proof -
  have off: "\<not> LIBOQS_AVAILABLE (initial_state False)" by (simp add: initial_state_def)
  have r: "run [(raising_oqs, node_env, Init Dilithium 3),
                (raising_oqs, node_env, Sign SPHINCS real_instance [1] [2])]
             (initial_state False) = initial_state False"
    using off by (simp add: init_flag_off sign_mock mock_mode_def)
  show ?thesis
    using flag_stays_off_and_forces_mock
            [OF off, of "[(raising_oqs, node_env, Init Dilithium 3),
                          (raising_oqs, node_env, Sign SPHINCS real_instance [1] [2])]"
               Dilithium raising_oqs node_env real_instance "[1]" "[2]" "[]" 3]
    unfolding r by simp
qed

text \<open>
  The retry after a backend failure.  When the backend raises inside generate_keypair,
  sign or verify, the operation sets
  the flag to unavailable and calls itself once more; that second activation is the mock
  branch, so the nesting depth is exactly two there and at most two for every call, and
  the outcome handed to the caller is the outcome of the mock branch, which does not
  depend on the backend: for sign and verify a value, for generate_keypair the mock key
  pair (a key pair whenever the node identity is text that \<open>encode()\<close> accepts).
\<close>

theorem backend_failure_retries_once_through_mock:
  assumes "\<not> mock_mode self s"
  shows "(backend_keypair be self = Inl e \<longrightarrow>
            generate_keypair fam be env self s
              = mock_generate_keypair fam env self (s\<lparr>LIBOQS_AVAILABLE := False\<rparr>)
          \<and> \<not> LIBOQS_AVAILABLE (snd (generate_keypair fam be env self s))
          \<and> generate_keypair_depth be self s = 2
          \<and> (\<forall>nb. str_encode (get_node_id env) = Inr nb \<longrightarrow>
                 (\<exists>kp. fst (generate_keypair fam be env self s) = Inr kp)))
       \<and> (signer_sign be (variant self) k m = Inl e \<longrightarrow>
            sign fam be self k m s = (Inr (mock_sign fam k m), s\<lparr>LIBOQS_AVAILABLE := False\<rparr>)
          \<and> sign_depth be self k m s = 2)
       \<and> (verifier_verify be (variant self) m sg k = Inl e \<longrightarrow>
            verify fam be self k m sg s
              = (Inr (mock_verify fam s k m sg), s\<lparr>LIBOQS_AVAILABLE := False\<rparr>)
          \<and> verify_depth be self k m sg s = 2)
       \<and> generate_keypair_depth be self s \<le> 2
       \<and> sign_depth be self k m s \<le> 2
       \<and> verify_depth be self k m sg s \<le> 2"
proof -
  have g: "backend_keypair be self = Inl e \<Longrightarrow> generate_keypair_depth be self s = 2"
    using assms
    by (subst generate_keypair_depth.simps) (simp add: generate_keypair_depth_mock)
  have sd: "signer_sign be (variant self) k m = Inl e \<Longrightarrow> sign_depth be self k m s = 2"
    using assms by (subst sign_depth.simps) (simp add: sign_depth_mock)
  have vd: "verifier_verify be (variant self) m sg k = Inl e \<Longrightarrow>
            verify_depth be self k m sg s = 2"
    using assms by (subst verify_depth.simps) (simp add: verify_depth_mock)
  have mv: "mock_verify fam (s\<lparr>LIBOQS_AVAILABLE := False\<rparr>) k m sg = mock_verify fam s k m sg"
    by (simp add: mock_verify_def)
  have ret: "str_encode (get_node_id env) = Inr nb \<Longrightarrow>
             \<exists>kp. fst (mock_generate_keypair fam env self (s\<lparr>LIBOQS_AVAILABLE := False\<rparr>)) = Inr kp"
    for nb
    using mock_generate_keypair_returns [of env nb fam self "s\<lparr>LIBOQS_AVAILABLE := False\<rparr>"]
    by auto
  show ?thesis
    using assms g sd vd ret
    by (simp add: generate_keypair_raise sign_raise verify_raise mv
          generate_keypair_depth_le sign_depth_le verify_depth_le)
qed

theorem backend_failure_retries_once_through_mock_witness:
  "sign Dilithium raising_oqs real_instance [1] [2] (initial_state True)
     = (Inr (hmac_sha256 [1] [2]), initial_state False)
   \<and> sign_depth raising_oqs real_instance [1] [2] (initial_state True) = 2
   \<and> generate_keypair_depth raising_oqs real_instance (initial_state True) = 2
   \<and> generate_keypair SPHINCS raising_oqs node_env real_instance (initial_state True)
       = mock_generate_keypair SPHINCS node_env real_instance (initial_state False)
   \<and> verify_depth raising_oqs real_instance [1] [2] [3] (initial_state True) = 2"
proof -
  have real: "\<not> mock_mode real_instance (initial_state True)"
    by (simp add: mock_mode_def real_instance_def initial_state_def)
  have off: "(initial_state True)\<lparr>LIBOQS_AVAILABLE := False\<rparr> = initial_state False"
    by (simp add: initial_state_def)
  have kp: "backend_keypair raising_oqs real_instance = Inl (BackendError 2)"
    by (simp add: backend_keypair_def raising_oqs_def real_instance_def)
  have sg: "signer_sign raising_oqs (variant real_instance) [1] [2] = Inl (BackendError 4)"
    by (simp add: raising_oqs_def)
  have vf: "verifier_verify raising_oqs (variant real_instance) [2] [3] [1] = Inl (BackendError 5)"
    by (simp add: raising_oqs_def)
  note t = backend_failure_retries_once_through_mock [OF real]
  show ?thesis
    using t [of raising_oqs "BackendError 2" SPHINCS node_env "[1]" "[2]" "[3]"]
          t [of raising_oqs "BackendError 4" Dilithium node_env "[1]" "[2]" "[3]"]
          t [of raising_oqs "BackendError 5" Dilithium node_env "[1]" "[2]" "[3]"]
          kp sg vf
    by (simp add: off)
qed

text \<open>
  C4.  The retried generate_keypair does not always return.  With a working signer and a
  backend whose key generation raises, under a node identity holding a lone surrogate (the
  value \<open>os.environ\<close> gives for \<open>NODE_ID\<close> with the byte \<open>0xFF\<close>), the operation sets the
  flag to unavailable and enters the mock branch at depth two, and there \<open>seed.encode()\<close>
  raises: the caller gets UnicodeEncodeError, for either family, and no key is stored.
\<close>

theorem generate_keypair_retry_raises_encoding_error:
  "generate_keypair Dilithium raising_oqs surrogate_env real_instance (initial_state True)
     = (Inl UnicodeEncodeError, initial_state False)
   \<and> generate_keypair SPHINCS raising_oqs surrogate_env real_instance (initial_state True)
     = (Inl UnicodeEncodeError, initial_state False)
   \<and> generate_keypair_depth raising_oqs real_instance (initial_state True) = 2
   \<and> LIBOQS_AVAILABLE (initial_state True)
   \<and> signer real_instance = Some (OqsSignature (lit ''ML-DSA-65''))
   \<and> backend_keypair raising_oqs real_instance = Inl (BackendError 2)"
proof -
  have real: "\<not> mock_mode real_instance (initial_state True)"
    by (simp add: mock_mode_def real_instance_def initial_state_def)
  have off: "(initial_state True)\<lparr>LIBOQS_AVAILABLE := False\<rparr> = initial_state False"
    by (simp add: initial_state_def)
  have kp: "backend_keypair raising_oqs real_instance = Inl (BackendError 2)"
    by (simp add: backend_keypair_def raising_oqs_def real_instance_def)
  have enc: "str_encode (get_node_id surrogate_env) = Inl UnicodeEncodeError"
    by (simp add: get_node_id_def surrogate_env_def lit_def utf8_char_def)
  have g: "generate_keypair fam raising_oqs surrogate_env real_instance (initial_state True)
             = (Inl UnicodeEncodeError, initial_state False)" for fam
    by (simp add: generate_keypair_raise [OF real kp] off mock_generate_keypair_raises [OF enc])
  have d: "generate_keypair_depth raising_oqs real_instance (initial_state True) = 2"
    using real kp
    by (subst generate_keypair_depth.simps) (simp add: generate_keypair_depth_mock)
  show ?thesis using kp g d by (simp add: initial_state_def real_instance_def)
qed

text \<open>
  C5.  In mock mode, for a public key that is not in the family's dictionary, verify
  returns whether the signature has the family's mock signature length (32 bytes for
  Dilithium, 48 for SPHINCS+), whatever the signature's content and the message.
\<close>

theorem verify_unknown_key_checks_length_only:
  assumes "mock_mode self s" and "mock_keypairs fam s public_key = None"
  shows "verify fam be self public_key message signature s
           = (Inr (length signature = mock_signature_length fam), s)
       \<and> mock_signature_length Dilithium = 32 \<and> mock_signature_length SPHINCS = 48"
  using assms by (simp add: verify_mock mock_verify_def)

theorem verify_unknown_key_checks_length_only_witness:
  "verify SPHINCS raising_oqs (mock_instance 3) [1] [2] (replicate 48 7) (initial_state False)
     = (Inr True, initial_state False)
   \<and> verify Dilithium raising_oqs (mock_instance 3) [1] [2] (replicate 48 7) (initial_state False)
     = (Inr False, initial_state False)"
proof -
  have mm: "mock_mode (mock_instance 3) (initial_state False)"
    by (simp add: mock_mode_def initial_state_def)
  have d: "mock_keypairs Dilithium (initial_state False) [1] = None"
    by (simp add: initial_state_def)
  have sp: "mock_keypairs SPHINCS (initial_state False) [1] = None"
    by (simp add: initial_state_def)
  show ?thesis
    using verify_unknown_key_checks_length_only [OF mm sp, of raising_oqs "[2]" "replicate 48 7"]
          verify_unknown_key_checks_length_only [OF mm d, of raising_oqs "[2]" "replicate 48 7"]
    by simp
qed



text \<open>
  C1.  What construction does with a security level outside the scheme's set.  With the
  backend available the constructor raises ValueError; with the flag already false it
  returns before that check and yields an instance at the unsupported level.
\<close>

theorem init_skips_level_check_without_backend:
  "init Dilithium working_oqs 4 (initial_state True) = (Inl ValueError, initial_state True)
   \<and> init SPHINCS working_oqs 2 (initial_state True) = (Inl ValueError, initial_state True)
   \<and> init Dilithium be 4 (initial_state False) = (Inr (mock_instance 4), initial_state False)
   \<and> init SPHINCS be 2 (initial_state False) = (Inr (mock_instance 2), initial_state False)
   \<and> init Dilithium raising_oqs 4 (initial_state True)
       = (Inr (mock_instance 4), initial_state False)"
  by (simp add: init_def initial_state_def working_oqs_def raising_oqs_def mock_instance_def)

text \<open>
  C2.  In mock mode, for the pair (public_key, private_key) that one call of
  generate_keypair returns and for every message, sign with the private key returns a
  signature that verify accepts for the public key and that message.
\<close>

theorem mock_sign_then_verify_accepts:
  assumes "mock_mode self s"
    and "generate_keypair fam be env self s = (Inr (public_key, private_key), s1)"
  shows "\<exists>signature. sign fam be2 self private_key message s1 = (Inr signature, s1)
           \<and> verify fam be3 self public_key message signature s1 = (Inr True, s1)"
proof -
  have "mock_generate_keypair fam env self s = (Inr (public_key, private_key), s1)"
    using assms by (simp add: generate_keypair_mock)
  then have s1: "s1 = mock_keypairs_store fam public_key private_key s"
    and len: "length private_key = 32"
    using mock_generate_keypair_result by blast+
  have mm: "mock_mode self s1" using assms(1) by (simp add: s1 mock_mode_def)
  have reg: "mock_keypairs fam s1 public_key = Some private_key" by (simp add: s1)
  show ?thesis
    using mm by (simp add: sign_mock verify_mock mock_verify_registered [OF reg len])
qed

theorem mock_sign_then_verify_accepts_witness:
  "\<exists>signature.
      sign Dilithium raising_oqs (mock_instance 3) (node1_private_key Dilithium 3) [104, 105]
        (mock_keypairs_store Dilithium (node1_public_key Dilithium 3)
           (node1_private_key Dilithium 3) (initial_state False))
        = (Inr signature,
           mock_keypairs_store Dilithium (node1_public_key Dilithium 3)
             (node1_private_key Dilithium 3) (initial_state False))
    \<and> verify Dilithium working_oqs (mock_instance 3) (node1_public_key Dilithium 3) [104, 105]
        signature
        (mock_keypairs_store Dilithium (node1_public_key Dilithium 3)
           (node1_private_key Dilithium 3) (initial_state False))
        = (Inr True,
           mock_keypairs_store Dilithium (node1_public_key Dilithium 3)
             (node1_private_key Dilithium 3) (initial_state False))"
proof -
  have mm: "mock_mode (mock_instance 3) (initial_state False)" by simp
  have g: "generate_keypair Dilithium raising_oqs node_env (mock_instance 3) (initial_state False)
             = (Inr (node1_public_key Dilithium 3, node1_private_key Dilithium 3),
                mock_keypairs_store Dilithium (node1_public_key Dilithium 3)
                  (node1_private_key Dilithium 3) (initial_state False))"
    using node1_generate_keypair [OF mm, of Dilithium raising_oqs]
    by (simp add: mock_instance_def)
  show ?thesis
    by (rule mock_sign_then_verify_accepts [OF mm g])
qed

text \<open>
  C7.  In mock mode, in a state reached from the start of the process by constructions and
  calls, when the public key is in the family's dictionary verify returns whether the
  supplied signature equals the one recomputed from the registered private key and the
  message; so for the signature that sign returns for that key and message, flipping any
  one of its bits makes verify return false.
\<close>

theorem verify_registered_key_recomputes:
  assumes "mock_mode self (run cs (initial_state b))"
    and "mock_keypairs fam (run cs (initial_state b)) public_key = Some private_key"
  shows "verify fam be self public_key message signature (run cs (initial_state b))
           = (Inr (signature = mock_sign fam private_key message), run cs (initial_state b))
       \<and> sign fam be self private_key message (run cs (initial_state b))
           = (Inr (mock_sign fam private_key message), run cs (initial_state b))
       \<and> (\<forall>i < 8 * length (mock_sign fam private_key message).
            verify fam be self public_key message
                (flip_signature_bit i (mock_sign fam private_key message))
                (run cs (initial_state b))
              = (Inr False, run cs (initial_state b)))"
proof -
  have len: "length private_key = 32" using assms(2) by (rule reachable_private_keys)
  have v: "verify fam be self public_key message sg (run cs (initial_state b))
             = (Inr (sg = mock_sign fam private_key message), run cs (initial_state b))" for sg
    using assms(1) by (simp add: verify_mock mock_verify_registered [OF assms(2) len])
  show ?thesis
    using assms(1) by (simp add: v sign_mock flip_signature_bit_changes)
qed

theorem verify_registered_key_recomputes_witness:
  "verify Dilithium raising_oqs (mock_instance 5) (node1_public_key Dilithium 3) [1]
       (flip_signature_bit 255 (mock_sign Dilithium (node1_private_key Dilithium 3) [1]))
       (run [(raising_oqs, node_env, Generate_keypair Dilithium (mock_instance 3))]
          (initial_state False))
     = (Inr False,
        run [(raising_oqs, node_env, Generate_keypair Dilithium (mock_instance 3))]
          (initial_state False))"
proof -
  let ?s = "run [(raising_oqs, node_env, Generate_keypair Dilithium (mock_instance 3))]
              (initial_state False)"
  have s: "?s = mock_keypairs_store Dilithium (node1_public_key Dilithium 3)
                  (node1_private_key Dilithium 3) (initial_state False)"
    using node1_generate_keypair
            [of "mock_instance 3" "initial_state False" Dilithium raising_oqs]
    by (simp add: mock_instance_def mock_mode_def)
  have mm: "mock_mode (mock_instance 5) ?s" by simp
  have reg: "mock_keypairs Dilithium ?s (node1_public_key Dilithium 3)
               = Some (node1_private_key Dilithium 3)"
    unfolding s by simp
  have i: "255 < 8 * length (mock_sign Dilithium (node1_private_key Dilithium 3) [1])"
    by (simp add: length_hmac_sha256)
  show ?thesis
    using verify_registered_key_recomputes [OF mm reg, of raising_oqs "[1]" "[]"] i
    by blast
qed

text \<open>
  C8.  Mock operations are functions of their inputs: two instances of one family with
  the same security level, run with the same node identity, get the same outcome from
  generate_keypair whatever the backend, the dictionaries and the other fields are, and
  mock sign on the same private key and message returns the same signature.
\<close>

theorem mock_operations_deterministic:
  assumes "mock_mode self1 s1" and "mock_mode self2 s2"
    and "security_level self1 = security_level self2"
    and "get_node_id env1 = get_node_id env2"
  shows "fst (generate_keypair fam be1 env1 self1 s1) = fst (generate_keypair fam be2 env2 self2 s2)
       \<and> fst (sign fam be1 self1 private_key message s1)
           = fst (sign fam be2 self2 private_key message s2)"
  using assms
  by (simp add: generate_keypair_mock sign_mock mock_generate_keypair_def
        split: sum.splits prod.splits)

theorem mock_operations_deterministic_witness:
  "fst (generate_keypair SPHINCS raising_oqs node_env (mock_instance 5) (initial_state False))
     = fst (generate_keypair SPHINCS working_oqs (node_env\<lparr>thread_ident := 99\<rparr>)
              (real_instance\<lparr>security_level := 5\<rparr>)
              (mock_keypairs_store SPHINCS [1] [2] (initial_state False)))"
proof -
  have m1: "mock_mode (mock_instance 5) (initial_state False)" by simp
  have m2: "mock_mode (real_instance\<lparr>security_level := 5\<rparr>)
              (mock_keypairs_store SPHINCS [1] [2] (initial_state False))"
    by (simp add: mock_mode_def initial_state_def)
  have l: "security_level (mock_instance 5) = security_level (real_instance\<lparr>security_level := 5\<rparr>)"
    by (simp add: mock_instance_def)
  have n: "get_node_id node_env = get_node_id (node_env\<lparr>thread_ident := 99\<rparr>)"
    by (simp add: get_node_id_def node_env_def)
  show ?thesis
    using mock_operations_deterministic [OF m1 m2 l n, of SPHINCS raising_oqs working_oqs "[]" "[]"]
    by simp
qed

text \<open>
  C9.  The mock key dictionary of a family is changed only by generate_keypair of that
  family, and then by exactly the entry that maps the returned public key to the returned
  private key (in mock mode every returned pair is stored so); construction, sign and
  verify leave both dictionaries as they are, and over any sequence of operations the set
  of registered public keys only grows.
\<close>

theorem registry_changes_only_by_generate_keypair:
  "mock_keypairs fam' (snd (init fam be level s)) = mock_keypairs fam' s
   \<and> mock_keypairs fam' (snd (sign fam be self k m s)) = mock_keypairs fam' s
   \<and> mock_keypairs fam' (snd (verify fam be self k m sg s)) = mock_keypairs fam' s
   \<and> (mock_keypairs fam' (snd (generate_keypair fam be env self s)) = mock_keypairs fam' s
       \<or> (\<exists>pub priv. fam' = fam
             \<and> fst (generate_keypair fam be env self s) = Inr (pub, priv)
             \<and> mock_keypairs fam' (snd (generate_keypair fam be env self s))
                 = (mock_keypairs fam' s)(pub \<mapsto> priv)))
   \<and> (mock_mode self s \<longrightarrow>
         (\<forall>pub priv. fst (generate_keypair fam be env self s) = Inr (pub, priv) \<longrightarrow>
            mock_keypairs fam (snd (generate_keypair fam be env self s))
              = (mock_keypairs fam s)(pub \<mapsto> priv)))
   \<and> dom (mock_keypairs fam' s) \<subseteq> dom (mock_keypairs fam' (run cs s))"
proof -
  have g: "mock_keypairs fam' (snd (generate_keypair fam be env self s)) = mock_keypairs fam' s
       \<or> (\<exists>pub priv. fam' = fam
             \<and> fst (generate_keypair fam be env self s) = Inr (pub, priv)
             \<and> mock_keypairs fam' (snd (generate_keypair fam be env self s))
                 = (mock_keypairs fam' s)(pub \<mapsto> priv))"
    using generate_keypair_registry [of fam' fam be env self s] by blast
  have m: "mock_keypairs fam (snd (generate_keypair fam be env self s))
             = (mock_keypairs fam s)(pub \<mapsto> priv)"
    if "mock_mode self s" and "fst (generate_keypair fam be env self s) = Inr (pub, priv)"
    for pub priv
  proof -
    have "fst (mock_generate_keypair fam env self s) = Inr (pub, priv)"
      using that by (simp add: generate_keypair_mock)
    then have r: "mock_generate_keypair fam env self s
                    = (Inr (pub, priv), snd (mock_generate_keypair fam env self s))"
      by (metis prod.collapse)
    then have "snd (mock_generate_keypair fam env self s) = mock_keypairs_store fam pub priv s"
      using mock_generate_keypair_result by blast
    then show ?thesis using that(1) by (simp add: generate_keypair_mock)
  qed
  show ?thesis
    using g m by (simp add: init_registry sign_registry verify_registry run_dom)
qed

theorem registry_changes_only_by_generate_keypair_witness:
  "mock_keypairs Dilithium
     (snd (generate_keypair Dilithium raising_oqs node_env (mock_instance 3) (initial_state False)))
     = [node1_public_key Dilithium 3 \<mapsto> node1_private_key Dilithium 3]
   \<and> mock_keypairs SPHINCS
       (snd (generate_keypair Dilithium raising_oqs node_env (mock_instance 3) (initial_state False)))
     = Map.empty"
proof -
  have mm: "mock_mode (mock_instance 3) (initial_state False)" by simp
  have g: "generate_keypair Dilithium raising_oqs node_env (mock_instance 3) (initial_state False)
             = (Inr (node1_public_key Dilithium 3, node1_private_key Dilithium 3),
                mock_keypairs_store Dilithium (node1_public_key Dilithium 3)
                  (node1_private_key Dilithium 3) (initial_state False))"
    using node1_generate_keypair [OF mm, of Dilithium raising_oqs]
    by (simp add: mock_instance_def)
  have e: "mock_keypairs fam (initial_state False) = Map.empty" for fam
    by (cases fam) (simp_all add: initial_state_def)
  show ?thesis
    using registry_changes_only_by_generate_keypair
            [of SPHINCS Dilithium raising_oqs 3 "initial_state False" "mock_instance 3"
               "[]" "[]" "[]" node_env "[]"]
          registry_changes_only_by_generate_keypair
            [of Dilithium Dilithium raising_oqs 3 "initial_state False" "mock_instance 3"
               "[]" "[]" "[]" node_env "[]"]
    by (simp add: g e mock_keypairs_store_other)
qed

text \<open>
  C10.  The dictionary of a family is one map for all its instances, keyed by public key
  alone: after any instance has generated a mock key pair, verify on any instance of the
  family that is in mock mode, whatever its security level, compares the signature with
  the one recomputed from the registered private key, and the outcome is the same for
  every such instance.
\<close>

theorem registry_shared_across_instances:
  assumes "mock_mode self1 s"
    and "generate_keypair fam be1 env self1 s = (Inr (public_key, private_key), s1)"
    and "mock_mode self2 s1"
  shows "verify fam be2 self2 public_key message signature s1
           = (Inr (signature = mock_sign fam private_key message), s1)
       \<and> verify fam be2 (self2\<lparr>security_level := level\<rparr>) public_key message signature s1
           = verify fam be2 self2 public_key message signature s1
       \<and> (mock_mode self3 s1 \<longrightarrow>
            verify fam be3 self3 public_key message signature s1
              = verify fam be2 self2 public_key message signature s1)"
proof -
  have "mock_generate_keypair fam env self1 s = (Inr (public_key, private_key), s1)"
    using assms by (simp add: generate_keypair_mock)
  then have s1: "s1 = mock_keypairs_store fam public_key private_key s"
    and len: "length private_key = 32"
    using mock_generate_keypair_result by blast+
  have reg: "mock_keypairs fam s1 public_key = Some private_key" by (simp add: s1)
  have lvl: "mock_mode (self2\<lparr>security_level := level\<rparr>) s1"
    using assms(3) by (simp add: mock_mode_def)
  show ?thesis
    using assms(3) lvl by (simp add: verify_mock mock_verify_registered [OF reg len])
qed

theorem registry_shared_across_instances_witness:
  "verify SPHINCS working_oqs (mock_instance 5) (node1_public_key SPHINCS 1) [7]
       (mock_sign SPHINCS (node1_private_key SPHINCS 1) [7])
       (mock_keypairs_store SPHINCS (node1_public_key SPHINCS 1) (node1_private_key SPHINCS 1)
          (initial_state False))
     = (Inr True,
        mock_keypairs_store SPHINCS (node1_public_key SPHINCS 1) (node1_private_key SPHINCS 1)
          (initial_state False))"
proof -
  have mm: "mock_mode (mock_instance 1) (initial_state False)" by simp
  have g: "generate_keypair SPHINCS raising_oqs node_env (mock_instance 1) (initial_state False)
             = (Inr (node1_public_key SPHINCS 1, node1_private_key SPHINCS 1),
                mock_keypairs_store SPHINCS (node1_public_key SPHINCS 1)
                  (node1_private_key SPHINCS 1) (initial_state False))"
    using node1_generate_keypair [OF mm, of SPHINCS raising_oqs]
    by (simp add: mock_instance_def)
  have m2: "mock_mode (mock_instance 5)
              (mock_keypairs_store SPHINCS (node1_public_key SPHINCS 1)
                 (node1_private_key SPHINCS 1) (initial_state False))"
    by simp
  show ?thesis
    using registry_shared_across_instances
            [OF mm g m2, of working_oqs "[7]" "mock_sign SPHINCS (node1_private_key SPHINCS 1) [7]"]
    by simp
qed

end
